theory Spec2Isabelle
  imports Main
begin

section \<open>The unlang interpreter's data model (include/interpreter.h)\<close>

subsection \<open>Node types\<close>

text \<open>
  The enumeration \<^verbatim>\<open>unlang_type_t\<close>, as compiled with \<^verbatim>\<open>WITH_UNLANG\<close> defined (the
  build in which the condition, switch, foreach, break, return and map nodes exist).
\<close>

datatype unlang_type_t =
    UNLANG_TYPE_NULL
  | UNLANG_TYPE_MODULE_CALL
  | UNLANG_TYPE_GROUP
  | UNLANG_TYPE_LOAD_BALANCE
  | UNLANG_TYPE_REDUNDANT_LOAD_BALANCE
  | UNLANG_TYPE_PARALLEL
  | UNLANG_TYPE_IF
  | UNLANG_TYPE_ELSE
  | UNLANG_TYPE_ELSIF
  | UNLANG_TYPE_UPDATE
  | UNLANG_TYPE_SWITCH
  | UNLANG_TYPE_CASE
  | UNLANG_TYPE_FOREACH
  | UNLANG_TYPE_BREAK
  | UNLANG_TYPE_RETURN
  | UNLANG_TYPE_MAP
  | UNLANG_TYPE_POLICY
  | UNLANG_TYPE_XLAT_INLINE
  | UNLANG_TYPE_MODULE_RESUME
  | UNLANG_TYPE_MAX

text \<open>The enumerators in the order of their declaration.\<close>

definition unlang_type_enumerators :: "unlang_type_t list" where
  "unlang_type_enumerators =
    [UNLANG_TYPE_NULL, UNLANG_TYPE_MODULE_CALL, UNLANG_TYPE_GROUP, UNLANG_TYPE_LOAD_BALANCE,
     UNLANG_TYPE_REDUNDANT_LOAD_BALANCE, UNLANG_TYPE_PARALLEL, UNLANG_TYPE_IF,
     UNLANG_TYPE_ELSE, UNLANG_TYPE_ELSIF, UNLANG_TYPE_UPDATE, UNLANG_TYPE_SWITCH,
     UNLANG_TYPE_CASE, UNLANG_TYPE_FOREACH, UNLANG_TYPE_BREAK, UNLANG_TYPE_RETURN,
     UNLANG_TYPE_MAP, UNLANG_TYPE_POLICY, UNLANG_TYPE_XLAT_INLINE,
     UNLANG_TYPE_MODULE_RESUME, UNLANG_TYPE_MAX]"

text \<open>
  The integer a C enumerator stands for: \<^verbatim>\<open>UNLANG_TYPE_NULL = 0\<close>,
  \<^verbatim>\<open>UNLANG_TYPE_MODULE_CALL = 1\<close>, and every later enumerator one more than the one
  before it, which is its position in the declaration.
\<close>

fun enum_position :: "'a list \<Rightarrow> 'a \<Rightarrow> int" where
  "enum_position [] t = 0"
| "enum_position (x # xs) t = (if x = t then 0 else 1 + enum_position xs t)"

definition unlang_type_value :: "unlang_type_t \<Rightarrow> int" where
  "unlang_type_value t = enum_position unlang_type_enumerators t"

subsection \<open>Nodes\<close>

text \<open>
  Pointers are addresses; a pointer field that may be \<^verbatim>\<open>NULL\<close> is an optional address.
  Function pointers and pointers to structures declared outside this header
  (\<^verbatim>\<open>CONF_SECTION\<close>, \<^verbatim>\<open>vp_map_t\<close>, \<^verbatim>\<open>module_instance_t\<close>, ...) are opaque addresses too.
\<close>

type_synonym addr = nat

text \<open>
  Modelled from the spec: \<^verbatim>\<open>rlm_rcode_t\<close> and \<^verbatim>\<open>RLM_MODULE_NUMCODES\<close> are declared outside
  this header; the result codes are the fixed set the specification lists (ok, fail,
  reject, handled, invalid, user-lock, not-found, no-op, updated, disallow).
\<close>

datatype rlm_rcode_t =
    RLM_MODULE_OK
  | RLM_MODULE_FAIL
  | RLM_MODULE_REJECT
  | RLM_MODULE_HANDLED
  | RLM_MODULE_INVALID
  | RLM_MODULE_USERLOCK
  | RLM_MODULE_NOTFOUND
  | RLM_MODULE_NOOP
  | RLM_MODULE_UPDATED
  | RLM_MODULE_DISALLOW

record unlang_t =
  parent :: "addr option"
  "next" :: "addr option"
  name :: string
  debug_name :: string
  type :: unlang_type_t
  actions :: "rlm_rcode_t \<Rightarrow> int"

datatype unlang_group_type_t =
    UNLANG_GROUP_TYPE_SIMPLE
  | UNLANG_GROUP_TYPE_REDUNDANT
  | UNLANG_GROUP_TYPE_MAX

record unlang_group_t =
  self :: unlang_t
  group_type :: unlang_group_type_t
  children :: "addr option"
  tail :: "addr option"
  cs :: "addr option"
  num_children :: int
  vp_map :: "addr option"
  vpt :: "addr option"
  cond :: "addr option"
  proc_inst :: "addr option"

record unlang_module_call_t =
  self :: unlang_t
  module_instance :: "addr option"
  "method" :: "addr option"

record unlang_module_resumption_t =
  module :: unlang_module_call_t
  thread :: "addr option"
  callback :: "addr option"
  signal_callback :: "addr option"
  ctx :: "addr option"

record unlang_xlat_inline_t =
  self :: unlang_t
  exec :: int
  xlat_name :: string

text \<open>
  A node lives in a talloc chunk, which remembers the structure type it was allocated as.
  The heap maps the address of a chunk to its content.
\<close>

datatype chunk =
    Unlang_group unlang_group_t
  | Unlang_module_call unlang_module_call_t
  | Unlang_module_resumption unlang_module_resumption_t
  | Unlang_xlat_inline unlang_xlat_inline_t

type_synonym heap = "addr \<rightharpoonup> chunk"

text \<open>
  Every specialisation starts with its \<^verbatim>\<open>unlang_t\<close>, so the address of a node is also the
  address of its \<^verbatim>\<open>unlang_t\<close>: this is what a \<^verbatim>\<open>unlang_t *\<close> to the chunk reads.
\<close>

fun generic :: "chunk \<Rightarrow> unlang_t" where
  "generic (Unlang_group g) = unlang_group_t.self g"
| "generic (Unlang_module_call m) = unlang_module_call_t.self m"
| "generic (Unlang_module_resumption r) = unlang_module_call_t.self (module r)"
| "generic (Unlang_xlat_inline x) = unlang_xlat_inline_t.self x"

fun talloc_name :: "chunk \<Rightarrow> string" where
  "talloc_name (Unlang_group g) = ''unlang_group_t''"
| "talloc_name (Unlang_module_call m) = ''unlang_module_call_t''"
| "talloc_name (Unlang_module_resumption r) = ''unlang_module_resumption_t''"
| "talloc_name (Unlang_xlat_inline x) = ''unlang_xlat_inline_t''"

subsection \<open>Conversions between a node and its specialisations\<close>

datatype fault = Bad_pointer | Assert_failed | Talloc_abort

text \<open>
  Modelled from the spec: \<^verbatim>\<open>rad_assert\<close> (rad_assert.h is not among the sources) is the
  non-production assertion with which the core double-checks a well-formed graph; this
  is the build in which it is checked, where a false condition aborts.
\<close>

definition rad_assert :: "bool \<Rightarrow> fault + unit" where
  "rad_assert b = (if b then Inr () else Inl Assert_failed)"

text \<open>
  \<^verbatim>\<open>talloc_get_type_abort(p, T)\<close> is the talloc library's checked cast: it returns
  \<^verbatim>\<open>p\<close> when the chunk at \<^verbatim>\<open>p\<close> was allocated as a \<^verbatim>\<open>T\<close>, and aborts otherwise.
\<close>

definition talloc_get_type_abort :: "heap \<Rightarrow> addr \<Rightarrow> string \<Rightarrow> fault + addr" where
  "talloc_get_type_abort h p T =
    (case h p of
       None \<Rightarrow> Inl Talloc_abort
     | Some c \<Rightarrow> if talloc_name c = T then Inr p else Inl Talloc_abort)"

text \<open>\<^verbatim>\<open>p->type\<close> for a \<^verbatim>\<open>unlang_t *p\<close>.\<close>

definition deref_type :: "heap \<Rightarrow> addr \<Rightarrow> fault + unlang_type_t" where
  "deref_type h p = (case h p of None \<Rightarrow> Inl Bad_pointer | Some c \<Rightarrow> Inr (type (generic c)))"

definition unlang_generic_to_module_call :: "heap \<Rightarrow> addr \<Rightarrow> fault + addr" where
  "unlang_generic_to_module_call h p =
    (case deref_type h p of
       Inl e \<Rightarrow> Inl e
     | Inr t \<Rightarrow>
        (case rad_assert (t = UNLANG_TYPE_MODULE_CALL) of
           Inl e \<Rightarrow> Inl e
         | Inr _ \<Rightarrow> talloc_get_type_abort h p ''unlang_module_call_t''))"

definition unlang_generic_to_group :: "heap \<Rightarrow> addr \<Rightarrow> fault + addr" where
  "unlang_generic_to_group h p =
    (case deref_type h p of
       Inl e \<Rightarrow> Inl e
     | Inr t \<Rightarrow>
        (case rad_assert (unlang_type_value t > unlang_type_value UNLANG_TYPE_MODULE_CALL \<and>
                          unlang_type_value t \<le> unlang_type_value UNLANG_TYPE_POLICY) of
           Inl e \<Rightarrow> Inl e
         | Inr _ \<Rightarrow> Inr p))"

definition unlang_module_call_to_generic :: "addr \<Rightarrow> addr" where
  "unlang_module_call_to_generic p = p"

definition unlang_group_to_generic :: "addr \<Rightarrow> addr" where
  "unlang_group_to_generic p = p"

definition unlang_generic_to_xlat_inline :: "heap \<Rightarrow> addr \<Rightarrow> fault + addr" where
  "unlang_generic_to_xlat_inline h p =
    (case deref_type h p of
       Inl e \<Rightarrow> Inl e
     | Inr t \<Rightarrow>
        (case rad_assert (t = UNLANG_TYPE_XLAT_INLINE) of
           Inl e \<Rightarrow> Inl e
         | Inr _ \<Rightarrow> talloc_get_type_abort h p ''unlang_xlat_inline_t''))"

definition unlang_xlat_inline_to_generic :: "addr \<Rightarrow> addr" where
  "unlang_xlat_inline_to_generic p = p"

definition unlang_generic_to_module_resumption :: "heap \<Rightarrow> addr \<Rightarrow> fault + addr" where
  "unlang_generic_to_module_resumption h p =
    (case deref_type h p of
       Inl e \<Rightarrow> Inl e
     | Inr t \<Rightarrow>
        (case rad_assert (t = UNLANG_TYPE_MODULE_RESUME) of
           Inl e \<Rightarrow> Inl e
         | Inr _ \<Rightarrow> talloc_get_type_abort h p ''unlang_module_resumption_t''))"

definition unlang_module_resumption_to_generic :: "addr \<Rightarrow> addr" where
  "unlang_module_resumption_to_generic p = p"

subsection \<open>Example nodes\<close>

definition example_node :: "unlang_type_t \<Rightarrow> unlang_t" where
  "example_node t =
    \<lparr>parent = None, next = None, name = ''example'', debug_name = ''example'', type = t,
     actions = (\<lambda>_. 1)\<rparr>"

definition example_group :: "unlang_type_t \<Rightarrow> unlang_group_t" where
  "example_group t =
    \<lparr>unlang_group_t.self = example_node t, group_type = UNLANG_GROUP_TYPE_SIMPLE,
     children = None, tail = None, cs = None, num_children = 0, vp_map = None, vpt = None,
     cond = None, proc_inst = None\<rparr>"

definition example_module_call :: "unlang_type_t \<Rightarrow> unlang_module_call_t" where
  "example_module_call t =
    \<lparr>unlang_module_call_t.self = example_node t, module_instance = Some 100,
     method = Some 200\<rparr>"

definition example_resumption :: unlang_module_resumption_t where
  "example_resumption =
    \<lparr>module = example_module_call UNLANG_TYPE_MODULE_RESUME, thread = Some 300,
     callback = Some 400, signal_callback = None, ctx = Some 500\<rparr>"

definition example_heap :: heap where
  "example_heap =
    [10 \<mapsto> Unlang_group (example_group UNLANG_TYPE_BREAK),
     20 \<mapsto> Unlang_module_call (example_module_call UNLANG_TYPE_MODULE_CALL),
     30 \<mapsto> Unlang_module_resumption example_resumption,
     40 \<mapsto> Unlang_group (example_group UNLANG_TYPE_RETURN)]"

section \<open>Result combination in a sequential group\<close>

text \<open>The two markers an entry of \<^verbatim>\<open>actions\<close> may hold instead of a priority.\<close>

definition MOD_ACTION_RETURN :: int where
  "MOD_ACTION_RETURN = -1"

definition MOD_ACTION_REJECT :: int where
  "MOD_ACTION_REJECT = -2"

text \<open>
  A child of a group, seen from the group: run on the state of the execution, it
  produces a result code and leaves a new state.
\<close>

type_synonym 'st child = "'st \<Rightarrow> rlm_rcode_t \<times> 'st"

text \<open>
  What a group hands to its parent: the best (result, priority) it recorded when it ran
  out of children, or the result it was cut short with.
\<close>

datatype group_output = Finished rlm_rcode_t int | Aborted rlm_rcode_t

text \<open>
  Modelled from the spec: the interpreter loop that evaluates a group (interpreter.c) is
  not among the sources. Following the specification's priority/result combination:
  children run in declared order; after a child produces a result code its disposition
  is looked up in the action table; REJECT ends the group with reject at once, RETURN
  ends it with that exact result at once; any other disposition is a priority, which
  replaces the best result and priority recorded so far when it is greater than or equal
  to the recorded priority; when no children remain the recorded pair is the output.
  The third component counts the children that were run.
\<close>

fun run_children ::
  "(rlm_rcode_t \<Rightarrow> int) \<Rightarrow> 'st child list \<Rightarrow> rlm_rcode_t \<Rightarrow> int \<Rightarrow> 'st
     \<Rightarrow> group_output \<times> 'st \<times> nat" where
  "run_children acts [] best_r best_p s = (Finished best_r best_p, s, 0)"
| "run_children acts (k # ks) best_r best_p s =
    (case k s of (r, s') \<Rightarrow>
      if acts r = MOD_ACTION_REJECT then (Aborted RLM_MODULE_REJECT, s', 1)
      else if acts r = MOD_ACTION_RETURN then (Aborted r, s', 1)
      else
        (case (if acts r \<ge> best_p
               then run_children acts ks r (acts r) s'
               else run_children acts ks best_r best_p s') of
           (out, s'', n) \<Rightarrow> (out, s'', Suc n)))"

text \<open>
  Modelled from the spec: a group starts from the fixed default the specification gives
  for a group without children, no-op with priority 0.
\<close>

definition sequential_group ::
  "(rlm_rcode_t \<Rightarrow> int) \<Rightarrow> 'st child list \<Rightarrow> 'st \<Rightarrow> group_output \<times> 'st \<times> nat" where
  "sequential_group acts ks s = run_children acts ks RLM_MODULE_NOOP 0 s"

text \<open>
  The result codes a list of children produces when every one of them is run, each on
  the state its predecessor left, and the state the last one leaves.
\<close>

fun child_results :: "'st child list \<Rightarrow> 'st \<Rightarrow> rlm_rcode_t list \<times> 'st" where
  "child_results [] s = ([], s)"
| "child_results (k # ks) s =
    (case k s of (r, s') \<Rightarrow>
      (case child_results ks s' of (rs, s'') \<Rightarrow> (r # rs, s'')))"

text \<open>The recorded pair after a list of result codes, all of them with a priority.\<close>

fun best_of ::
  "(rlm_rcode_t \<Rightarrow> int) \<Rightarrow> rlm_rcode_t list \<Rightarrow> rlm_rcode_t \<times> int \<Rightarrow> rlm_rcode_t \<times> int" where
  "best_of acts [] b = b"
| "best_of acts (r # rs) b = best_of acts rs (if acts r \<ge> snd b then (r, acts r) else b)"

subsection \<open>Example group\<close>

text \<open>
  Children that log their position in the state and return a fixed result code, and an
  action table in which ok and updated share the priority 3, fail has priority 1,
  reject is REJECT and handled is RETURN.
\<close>

definition logging_child :: "nat \<Rightarrow> rlm_rcode_t \<Rightarrow> nat list child" where
  "logging_child i r = (\<lambda>log. (r, log @ [i]))"

definition example_actions :: "rlm_rcode_t \<Rightarrow> int" where
  "example_actions r =
    (if r = RLM_MODULE_OK \<or> r = RLM_MODULE_UPDATED then 3
     else if r = RLM_MODULE_REJECT then MOD_ACTION_REJECT
     else if r = RLM_MODULE_HANDLED then MOD_ACTION_RETURN
     else 1)"

section \<open>Properties of the conversions\<close>

lemma unlang_type_values:
  "unlang_type_value UNLANG_TYPE_NULL = 0"
  "unlang_type_value UNLANG_TYPE_MODULE_CALL = 1"
  "unlang_type_value UNLANG_TYPE_GROUP = 2"
  "unlang_type_value UNLANG_TYPE_LOAD_BALANCE = 3"
  "unlang_type_value UNLANG_TYPE_REDUNDANT_LOAD_BALANCE = 4"
  "unlang_type_value UNLANG_TYPE_PARALLEL = 5"
  "unlang_type_value UNLANG_TYPE_IF = 6"
  "unlang_type_value UNLANG_TYPE_ELSE = 7"
  "unlang_type_value UNLANG_TYPE_ELSIF = 8"
  "unlang_type_value UNLANG_TYPE_UPDATE = 9"
  "unlang_type_value UNLANG_TYPE_SWITCH = 10"
  "unlang_type_value UNLANG_TYPE_CASE = 11"
  "unlang_type_value UNLANG_TYPE_FOREACH = 12"
  "unlang_type_value UNLANG_TYPE_BREAK = 13"
  "unlang_type_value UNLANG_TYPE_RETURN = 14"
  "unlang_type_value UNLANG_TYPE_MAP = 15"
  "unlang_type_value UNLANG_TYPE_POLICY = 16"
  "unlang_type_value UNLANG_TYPE_XLAT_INLINE = 17"
  "unlang_type_value UNLANG_TYPE_MODULE_RESUME = 18"
  "unlang_type_value UNLANG_TYPE_MAX = 19"
  by (simp_all add: unlang_type_value_def unlang_type_enumerators_def)

lemma group_range_types:
  "(unlang_type_value UNLANG_TYPE_MODULE_CALL < unlang_type_value t \<and>
    unlang_type_value t \<le> unlang_type_value UNLANG_TYPE_POLICY) =
   (t \<in> {UNLANG_TYPE_GROUP, UNLANG_TYPE_LOAD_BALANCE, UNLANG_TYPE_REDUNDANT_LOAD_BALANCE,
          UNLANG_TYPE_PARALLEL, UNLANG_TYPE_IF, UNLANG_TYPE_ELSE, UNLANG_TYPE_ELSIF,
          UNLANG_TYPE_UPDATE, UNLANG_TYPE_SWITCH, UNLANG_TYPE_CASE, UNLANG_TYPE_FOREACH,
          UNLANG_TYPE_BREAK, UNLANG_TYPE_RETURN, UNLANG_TYPE_MAP, UNLANG_TYPE_POLICY})"
  by (cases t) (simp_all add: unlang_type_values)

lemma unlang_generic_to_group_checked:
  "h p = Some c \<Longrightarrow>
   unlang_generic_to_group h p =
     (if unlang_type_value UNLANG_TYPE_MODULE_CALL < unlang_type_value (type (generic c)) \<and>
         unlang_type_value (type (generic c)) \<le> unlang_type_value UNLANG_TYPE_POLICY
      then Inr p else Inl Assert_failed)"
  by (simp add: unlang_generic_to_group_def deref_type_def rad_assert_def)

lemma example_heap_simps:
  "example_heap 10 = Some (Unlang_group (example_group UNLANG_TYPE_BREAK))"
  "example_heap 20 = Some (Unlang_module_call (example_module_call UNLANG_TYPE_MODULE_CALL))"
  "example_heap 30 = Some (Unlang_module_resumption example_resumption)"
  "example_heap 40 = Some (Unlang_group (example_group UNLANG_TYPE_RETURN))"
  by (simp_all add: example_heap_def)

lemma example_types:
  "type (generic (Unlang_group (example_group t))) = t"
  "type (generic (Unlang_module_call (example_module_call t))) = t"
  "type (generic (Unlang_module_resumption example_resumption)) = UNLANG_TYPE_MODULE_RESUME"
  by (simp_all add: example_group_def example_module_call_def example_resumption_def
      example_node_def)

text \<open>
  C9: The conversions to and from a specialisation are inverse to each other under the
  type-tag precondition. For a node allocated as a \<^verbatim>\<open>unlang_module_call_t\<close> at \<^verbatim>\<open>p\<close> whose
  type tag is \<^verbatim>\<open>UNLANG_TYPE_MODULE_CALL\<close>, converting \<^verbatim>\<open>p\<close> to the generic pointer and back
  passes the assertion and the talloc check and returns \<^verbatim>\<open>p\<close>; likewise for a node
  allocated as a \<^verbatim>\<open>unlang_module_resumption_t\<close> whose tag is
  \<^verbatim>\<open>UNLANG_TYPE_MODULE_RESUME\<close>. The conversions only read the heap: the pointer they
  return designates the same node, with the same content.
\<close>

theorem specialisation_round_trip:
  "(h p = Some (Unlang_module_call m) \<and>
    type (unlang_module_call_t.self m) = UNLANG_TYPE_MODULE_CALL \<longrightarrow>
      unlang_generic_to_module_call h (unlang_module_call_to_generic p) = Inr p \<and>
      h (unlang_module_call_to_generic p) = Some (Unlang_module_call m)) \<and>
   (h q = Some (Unlang_module_resumption r) \<and>
    type (unlang_module_call_t.self (module r)) = UNLANG_TYPE_MODULE_RESUME \<longrightarrow>
      unlang_generic_to_module_resumption h (unlang_module_resumption_to_generic q) = Inr q \<and>
      h (unlang_module_resumption_to_generic q) = Some (Unlang_module_resumption r))"
  by (simp add: unlang_generic_to_module_call_def unlang_module_call_to_generic_def
      unlang_generic_to_module_resumption_def unlang_module_resumption_to_generic_def
      deref_type_def rad_assert_def talloc_get_type_abort_def)

theorem specialisation_round_trip_witness:
  "example_heap 20 = Some (Unlang_module_call (example_module_call UNLANG_TYPE_MODULE_CALL)) \<and>
   type (unlang_module_call_t.self (example_module_call UNLANG_TYPE_MODULE_CALL)) =
     UNLANG_TYPE_MODULE_CALL \<and>
   unlang_generic_to_module_call example_heap (unlang_module_call_to_generic 20) = Inr 20 \<and>
   example_heap 30 = Some (Unlang_module_resumption example_resumption) \<and>
   type (unlang_module_call_t.self (module example_resumption)) = UNLANG_TYPE_MODULE_RESUME \<and>
   unlang_generic_to_module_resumption example_heap (unlang_module_resumption_to_generic 30) =
     Inr 30"
  using specialisation_round_trip [of example_heap 20
      "example_module_call UNLANG_TYPE_MODULE_CALL" 30 example_resumption]
  by (simp add: example_heap_simps example_module_call_def example_resumption_def
      example_node_def)

text \<open>
  C10: For a generic pointer to a node, the assertion of \<^verbatim>\<open>unlang_generic_to_group\<close> passes
  exactly when the node's type is strictly greater than \<^verbatim>\<open>UNLANG_TYPE_MODULE_CALL\<close> and at
  most \<^verbatim>\<open>UNLANG_TYPE_POLICY\<close>, and the conversion aborts otherwise. These are the fifteen
  types from \<^verbatim>\<open>UNLANG_TYPE_GROUP\<close> to \<^verbatim>\<open>UNLANG_TYPE_POLICY\<close>: the assertion passes for
  \<^verbatim>\<open>UNLANG_TYPE_BREAK\<close> and \<^verbatim>\<open>UNLANG_TYPE_RETURN\<close> nodes too, and fails for
  \<^verbatim>\<open>UNLANG_TYPE_NULL\<close>, \<^verbatim>\<open>UNLANG_TYPE_MODULE_CALL\<close>, \<^verbatim>\<open>UNLANG_TYPE_XLAT_INLINE\<close> and
  \<^verbatim>\<open>UNLANG_TYPE_MODULE_RESUME\<close>.
\<close>

theorem unlang_generic_to_group_accepts:
  assumes "h p = Some c" and "t = type (generic c)"
  shows
    "((unlang_generic_to_group h p = Inr p) =
        (unlang_type_value UNLANG_TYPE_MODULE_CALL < unlang_type_value t \<and>
         unlang_type_value t \<le> unlang_type_value UNLANG_TYPE_POLICY)) \<and>
     ((unlang_generic_to_group h p = Inl Assert_failed) =
        (\<not> (unlang_type_value UNLANG_TYPE_MODULE_CALL < unlang_type_value t \<and>
            unlang_type_value t \<le> unlang_type_value UNLANG_TYPE_POLICY))) \<and>
     ((unlang_generic_to_group h p = Inr p) =
        (t \<in> {UNLANG_TYPE_GROUP, UNLANG_TYPE_LOAD_BALANCE, UNLANG_TYPE_REDUNDANT_LOAD_BALANCE,
               UNLANG_TYPE_PARALLEL, UNLANG_TYPE_IF, UNLANG_TYPE_ELSE, UNLANG_TYPE_ELSIF,
               UNLANG_TYPE_UPDATE, UNLANG_TYPE_SWITCH, UNLANG_TYPE_CASE, UNLANG_TYPE_FOREACH,
               UNLANG_TYPE_BREAK, UNLANG_TYPE_RETURN, UNLANG_TYPE_MAP, UNLANG_TYPE_POLICY})) \<and>
     (t \<in> {UNLANG_TYPE_BREAK, UNLANG_TYPE_RETURN} \<longrightarrow> unlang_generic_to_group h p = Inr p) \<and>
     (t \<in> {UNLANG_TYPE_NULL, UNLANG_TYPE_MODULE_CALL, UNLANG_TYPE_XLAT_INLINE,
            UNLANG_TYPE_MODULE_RESUME} \<longrightarrow>
        unlang_generic_to_group h p = Inl Assert_failed)"
proof -
  let ?inside = "unlang_type_value UNLANG_TYPE_MODULE_CALL < unlang_type_value t \<and>
         unlang_type_value t \<le> unlang_type_value UNLANG_TYPE_POLICY"
  have conv: "unlang_generic_to_group h p = (if ?inside then Inr p else Inl Assert_failed)"
    using assms by (simp add: unlang_generic_to_group_checked)
  have accept: "(unlang_generic_to_group h p = Inr p) = ?inside"
    by (simp add: conv)
  have reject: "(unlang_generic_to_group h p = Inl Assert_failed) = (\<not> ?inside)"
    by (simp add: conv)
  have types: "(unlang_generic_to_group h p = Inr p) =
        (t \<in> {UNLANG_TYPE_GROUP, UNLANG_TYPE_LOAD_BALANCE, UNLANG_TYPE_REDUNDANT_LOAD_BALANCE,
               UNLANG_TYPE_PARALLEL, UNLANG_TYPE_IF, UNLANG_TYPE_ELSE, UNLANG_TYPE_ELSIF,
               UNLANG_TYPE_UPDATE, UNLANG_TYPE_SWITCH, UNLANG_TYPE_CASE, UNLANG_TYPE_FOREACH,
               UNLANG_TYPE_BREAK, UNLANG_TYPE_RETURN, UNLANG_TYPE_MAP, UNLANG_TYPE_POLICY})"
    unfolding accept by (rule group_range_types)
  have brk: "t \<in> {UNLANG_TYPE_BREAK, UNLANG_TYPE_RETURN} \<longrightarrow> unlang_generic_to_group h p = Inr p"
    unfolding types by auto
  have others: "t \<in> {UNLANG_TYPE_NULL, UNLANG_TYPE_MODULE_CALL, UNLANG_TYPE_XLAT_INLINE,
            UNLANG_TYPE_MODULE_RESUME} \<longrightarrow> unlang_generic_to_group h p = Inl Assert_failed"
    unfolding reject by (auto simp: unlang_type_values)
  from accept reject types brk others show ?thesis by blast
qed

theorem unlang_generic_to_group_accepts_witness:
  "example_heap 10 = Some (Unlang_group (example_group UNLANG_TYPE_BREAK)) \<and>
   unlang_generic_to_group example_heap 10 = Inr 10 \<and>
   example_heap 20 = Some (Unlang_module_call (example_module_call UNLANG_TYPE_MODULE_CALL)) \<and>
   unlang_generic_to_group example_heap 20 = Inl Assert_failed"
proof -
  have h1: "example_heap 10 = Some (Unlang_group (example_group UNLANG_TYPE_BREAK))"
    by (simp add: example_heap_simps)
  have t1: "UNLANG_TYPE_BREAK = type (generic (Unlang_group (example_group UNLANG_TYPE_BREAK)))"
    by (simp only: example_types)
  have h2: "example_heap 20 =
      Some (Unlang_module_call (example_module_call UNLANG_TYPE_MODULE_CALL))"
    by (simp add: example_heap_simps)
  have t2: "UNLANG_TYPE_MODULE_CALL =
      type (generic (Unlang_module_call (example_module_call UNLANG_TYPE_MODULE_CALL)))"
    by (simp only: example_types)
  have "unlang_generic_to_group example_heap 10 = Inr 10"
    using unlang_generic_to_group_accepts [of example_heap 10 _ UNLANG_TYPE_BREAK, OF h1 t1]
    by simp
  moreover have "unlang_generic_to_group example_heap 20 = Inl Assert_failed"
    using unlang_generic_to_group_accepts [of example_heap 20 _ UNLANG_TYPE_MODULE_CALL, OF h2 t2]
    by simp
  ultimately show ?thesis using h1 h2 by simp
qed

section \<open>Properties of the result combination\<close>

lemma child_results_length:
  "child_results ks s = (rs, s') \<Longrightarrow> length rs = length ks"
proof (induction ks arbitrary: s rs s')
  case Nil
  then show ?case by simp
next
  case (Cons k ks)
  obtain r s1 where k: "k s = (r, s1)" by (cases "k s")
  obtain rs1 s2 where rest: "child_results ks s1 = (rs1, s2)"
    by (cases "child_results ks s1")
  from Cons.prems k rest have "rs = r # rs1" by simp
  with Cons.IH [OF rest] show ?case by simp
qed

text \<open>
  While every disposition is a priority, no child is skipped and the output is the
  recorded pair.
\<close>

lemma run_children_priorities:
  "child_results ks s = (rs, s') \<Longrightarrow>
   \<forall>r \<in> set rs. acts r \<noteq> MOD_ACTION_REJECT \<and> acts r \<noteq> MOD_ACTION_RETURN \<Longrightarrow>
   run_children acts (ks @ post) br bp s =
     (case run_children acts post (fst (best_of acts rs (br, bp)))
             (snd (best_of acts rs (br, bp))) s' of
        (out, s'', n) \<Rightarrow> (out, s'', length ks + n))"
proof (induction ks arbitrary: s rs s' br bp)
  case Nil
  then show ?case by (simp split: prod.split)
next
  case (Cons k ks)
  obtain r s1 where k: "k s = (r, s1)" by (cases "k s")
  obtain rs1 s2 where rest: "child_results ks s1 = (rs1, s2)"
    by (cases "child_results ks s1")
  from Cons.prems(1) k rest have rs: "rs = r # rs1" and s': "s' = s2" by simp_all
  from Cons.prems(2) rs have r: "acts r \<noteq> MOD_ACTION_REJECT" "acts r \<noteq> MOD_ACTION_RETURN"
    and others: "\<forall>r \<in> set rs1. acts r \<noteq> MOD_ACTION_REJECT \<and> acts r \<noteq> MOD_ACTION_RETURN"
    by simp_all
  show ?case
    using k r rs s' Cons.IH [OF rest others] by (simp split: prod.split)
qed

lemma best_of_snoc:
  "best_of acts (rs @ [r]) b =
    (if acts r \<ge> snd (best_of acts rs b) then (r, acts r) else best_of acts rs b)"
  by (induction rs arbitrary: b) simp_all

text \<open>
  The recorded pair carries the greatest priority seen; it is the initial pair only if
  every priority was below the initial one, and otherwise the pair of the last result
  code with the greatest priority.
\<close>

lemma best_of_last_max:
  "(\<forall>j < length rs. acts (rs ! j) \<le> snd (best_of acts rs b)) \<and>
   ((best_of acts rs b = b \<and> (\<forall>j < length rs. acts (rs ! j) < snd b)) \<or>
    (\<exists>i < length rs. best_of acts rs b = (rs ! i, acts (rs ! i)) \<and>
        (\<forall>j < length rs. i < j \<longrightarrow> acts (rs ! j) < acts (rs ! i))))"
proof (induction rs rule: rev_induct)
  case Nil
  then show ?case by simp
next
  case (snoc r rs)
  show ?case
  proof (cases "acts r \<ge> snd (best_of acts rs b)")
    case True
    then have b': "best_of acts (rs @ [r]) b = (r, acts r)" by (simp add: best_of_snoc)
    have "\<forall>j < length (rs @ [r]). acts ((rs @ [r]) ! j) \<le> acts r"
      using snoc True by (auto simp: nth_append less_Suc_eq)
    moreover have "\<exists>i < length (rs @ [r]). (r, acts r) = ((rs @ [r]) ! i, acts ((rs @ [r]) ! i)) \<and>
        (\<forall>j < length (rs @ [r]). i < j \<longrightarrow> acts ((rs @ [r]) ! j) < acts ((rs @ [r]) ! i))"
      by (rule exI [of _ "length rs"]) simp
    ultimately show ?thesis using b' by simp
  next
    case False
    then have b': "best_of acts (rs @ [r]) b = best_of acts rs b" by (simp add: best_of_snoc)
    from False have lt: "acts r < snd (best_of acts rs b)" by simp
    have le: "\<forall>j < length (rs @ [r]). acts ((rs @ [r]) ! j) \<le> snd (best_of acts rs b)"
      using snoc lt by (auto simp: nth_append less_Suc_eq)
    from snoc have "(best_of acts rs b = b \<and> (\<forall>j < length rs. acts (rs ! j) < snd b)) \<or>
      (\<exists>i < length rs. best_of acts rs b = (rs ! i, acts (rs ! i)) \<and>
        (\<forall>j < length rs. i < j \<longrightarrow> acts (rs ! j) < acts (rs ! i)))" by simp
    then show ?thesis
    proof
      assume init: "best_of acts rs b = b \<and> (\<forall>j < length rs. acts (rs ! j) < snd b)"
      then have "\<forall>j < length (rs @ [r]). acts ((rs @ [r]) ! j) < snd b"
        using lt by (auto simp: nth_append less_Suc_eq)
      with init le b' show ?thesis by simp
    next
      assume "\<exists>i < length rs. best_of acts rs b = (rs ! i, acts (rs ! i)) \<and>
        (\<forall>j < length rs. i < j \<longrightarrow> acts (rs ! j) < acts (rs ! i))"
      then obtain i where i: "i < length rs" "best_of acts rs b = (rs ! i, acts (rs ! i))"
        "\<forall>j < length rs. i < j \<longrightarrow> acts (rs ! j) < acts (rs ! i)" by blast
      have "i < length (rs @ [r]) \<and>
        best_of acts (rs @ [r]) b = ((rs @ [r]) ! i, acts ((rs @ [r]) ! i)) \<and>
        (\<forall>j < length (rs @ [r]). i < j \<longrightarrow> acts ((rs @ [r]) ! j) < acts ((rs @ [r]) ! i))"
        using i lt b' by (auto simp: nth_append less_Suc_eq)
      then have "\<exists>i < length (rs @ [r]).
        best_of acts (rs @ [r]) b = ((rs @ [r]) ! i, acts ((rs @ [r]) ! i)) \<and>
        (\<forall>j < length (rs @ [r]). i < j \<longrightarrow> acts ((rs @ [r]) ! j) < acts ((rs @ [r]) ! i))"
        by blast
      with le b' show ?thesis by simp
    qed
  qed
qed

lemma example_children_results:
  "child_results [logging_child 0 RLM_MODULE_OK, logging_child 1 RLM_MODULE_FAIL,
      logging_child 2 RLM_MODULE_UPDATED] [] =
     ([RLM_MODULE_OK, RLM_MODULE_FAIL, RLM_MODULE_UPDATED], [0, 1, 2])"
  by (simp add: logging_child_def)

text \<open>
  C1: In a group whose children all produce result codes with a positive priority in
  the action table (neither REJECT nor RETURN), every child is run and the output of
  the group is the (result, priority) pair of one of its children: no child has a
  greater priority, and every child evaluated after it has a strictly smaller one, so
  between children of equal priority the later one is chosen.
\<close>

theorem sequential_group_max_priority:
  assumes "ks \<noteq> []"
    and "child_results ks s = (rs, s')"
    and "\<forall>r \<in> set rs. 0 < acts r"
  shows "\<exists>i < length rs.
      sequential_group acts ks s = (Finished (rs ! i) (acts (rs ! i)), s', length ks) \<and>
      (\<forall>j < length rs. acts (rs ! j) \<le> acts (rs ! i)) \<and>
      (\<forall>j < length rs. i < j \<longrightarrow> acts (rs ! j) < acts (rs ! i))"
proof -
  let ?b = "best_of acts rs (RLM_MODULE_NOOP, 0)"
  from assms(3) have prios:
    "\<forall>r \<in> set rs. acts r \<noteq> MOD_ACTION_REJECT \<and> acts r \<noteq> MOD_ACTION_RETURN"
    by (auto simp: MOD_ACTION_REJECT_def MOD_ACTION_RETURN_def)
  have out: "sequential_group acts ks s = (Finished (fst ?b) (snd ?b), s', length ks)"
    using run_children_priorities [OF assms(2) prios, of "[]" RLM_MODULE_NOOP 0]
    by (simp add: sequential_group_def)
  from assms(1,2) have ne: "0 < length rs" by (auto dest: child_results_length)
  with assms(3) have "\<not> acts (rs ! 0) < 0" by (simp add: not_less less_imp_le)
  with ne have not_init: "\<not> (\<forall>j < length rs. acts (rs ! j) < snd (RLM_MODULE_NOOP, 0::int))"
    by auto
  from best_of_last_max [of rs acts "(RLM_MODULE_NOOP, 0)"] not_init
  obtain i where i: "i < length rs" "?b = (rs ! i, acts (rs ! i))"
    "\<forall>j < length rs. i < j \<longrightarrow> acts (rs ! j) < acts (rs ! i)"
    and le: "\<forall>j < length rs. acts (rs ! j) \<le> snd ?b"
    by blast
  from out i le show ?thesis by auto
qed

theorem sequential_group_max_priority_witness:
  "child_results [logging_child 0 RLM_MODULE_OK, logging_child 1 RLM_MODULE_FAIL,
      logging_child 2 RLM_MODULE_UPDATED] [] =
     ([RLM_MODULE_OK, RLM_MODULE_FAIL, RLM_MODULE_UPDATED], [0, 1, 2]) \<and>
   0 < example_actions RLM_MODULE_OK \<and> 0 < example_actions RLM_MODULE_FAIL \<and>
   0 < example_actions RLM_MODULE_UPDATED \<and>
   sequential_group example_actions
     [logging_child 0 RLM_MODULE_OK, logging_child 1 RLM_MODULE_FAIL,
      logging_child 2 RLM_MODULE_UPDATED] [] =
     (Finished RLM_MODULE_UPDATED 3, [0, 1, 2], 3)"
proof -
  let ?ks = "[logging_child 0 RLM_MODULE_OK, logging_child 1 RLM_MODULE_FAIL,
      logging_child 2 RLM_MODULE_UPDATED]"
  let ?rs = "[RLM_MODULE_OK, RLM_MODULE_FAIL, RLM_MODULE_UPDATED]"
  have ne: "?ks \<noteq> []" by simp
  have pos: "\<forall>r \<in> set ?rs. 0 < example_actions r" by (simp add: example_actions_def)
  from sequential_group_max_priority [OF ne example_children_results pos]
  obtain i where i: "i < length ?rs"
    "sequential_group example_actions ?ks [] =
       (Finished (?rs ! i) (example_actions (?rs ! i)), [0, 1, 2], length ?ks)"
    "\<forall>j < length ?rs. i < j \<longrightarrow> example_actions (?rs ! j) < example_actions (?rs ! i)"
    by blast
  from i(1) have cases: "i = 0 \<or> i = 1 \<or> i = 2" by auto
  have later: "example_actions (?rs ! 2) < example_actions (?rs ! i)" if "i < 2"
    using i(3) [rule_format, of 2] that by simp
  have "i \<noteq> 0"
  proof
    assume "i = 0"
    with later have "example_actions (?rs ! 2) < example_actions (?rs ! 0)" by simp
    then show False by (simp add: example_actions_def)
  qed
  moreover have "i \<noteq> 1"
  proof
    assume "i = 1"
    with later have "example_actions (?rs ! 2) < example_actions (?rs ! 1)" by simp
    then show False by (simp add: example_actions_def)
  qed
  ultimately have "i = 2" using cases by simp
  with i(2) have "sequential_group example_actions ?ks [] =
      (Finished RLM_MODULE_UPDATED 3, [0, 1, 2], 3)"
    by (simp add: example_actions_def)
  with example_children_results pos show ?thesis by simp
qed

text \<open>
  C2: When the children before some child all produce result codes with a priority, so
  that the child is reached, and its result code maps to REJECT in the action table,
  the group ends at once with the result reject; when it maps to RETURN, the group ends
  at once with exactly that child's result. In both cases the state is the one this
  child left and the children run are it and its predecessors: whatever siblings
  follow, none of them is run.
\<close>

theorem sequential_group_short_circuit:
  assumes "child_results pre s = (rs, s1)"
    and "\<forall>r \<in> set rs. acts r \<noteq> MOD_ACTION_REJECT \<and> acts r \<noteq> MOD_ACTION_RETURN"
    and "k s1 = (r, s2)"
  shows
    "(acts r = MOD_ACTION_REJECT \<longrightarrow>
        sequential_group acts (pre @ k # post) s =
          (Aborted RLM_MODULE_REJECT, s2, Suc (length pre))) \<and>
     (acts r = MOD_ACTION_RETURN \<longrightarrow>
        sequential_group acts (pre @ k # post) s = (Aborted r, s2, Suc (length pre)))"
  using run_children_priorities [OF assms(1,2), of "k # post" RLM_MODULE_NOOP 0] assms(3)
  by (simp add: sequential_group_def MOD_ACTION_REJECT_def MOD_ACTION_RETURN_def)

theorem sequential_group_short_circuit_witness:
  "sequential_group example_actions
     [logging_child 0 RLM_MODULE_OK, logging_child 1 RLM_MODULE_REJECT,
      logging_child 2 RLM_MODULE_UPDATED] [] =
     (Aborted RLM_MODULE_REJECT, [0, 1], 2) \<and>
   sequential_group example_actions
     [logging_child 0 RLM_MODULE_OK, logging_child 1 RLM_MODULE_HANDLED,
      logging_child 2 RLM_MODULE_UPDATED] [] =
     (Aborted RLM_MODULE_HANDLED, [0, 1], 2)"
proof -
  have pre: "child_results [logging_child 0 RLM_MODULE_OK] [] = ([RLM_MODULE_OK], [0])"
    by (simp add: logging_child_def)
  have prios: "\<forall>r \<in> set [RLM_MODULE_OK].
      example_actions r \<noteq> MOD_ACTION_REJECT \<and> example_actions r \<noteq> MOD_ACTION_RETURN"
    by (simp add: example_actions_def MOD_ACTION_REJECT_def MOD_ACTION_RETURN_def)
  have rej: "logging_child 1 RLM_MODULE_REJECT [0] = (RLM_MODULE_REJECT, [0, 1])"
    by (simp add: logging_child_def)
  have ret: "logging_child 1 RLM_MODULE_HANDLED [0] = (RLM_MODULE_HANDLED, [0, 1])"
    by (simp add: logging_child_def)
  have a1: "example_actions RLM_MODULE_REJECT = MOD_ACTION_REJECT"
    by (simp add: example_actions_def)
  have a2: "example_actions RLM_MODULE_HANDLED = MOD_ACTION_RETURN"
    by (simp add: example_actions_def)
  have "sequential_group example_actions
     ([logging_child 0 RLM_MODULE_OK] @ logging_child 1 RLM_MODULE_REJECT #
      [logging_child 2 RLM_MODULE_UPDATED]) [] = (Aborted RLM_MODULE_REJECT, [0, 1], 2)"
    using sequential_group_short_circuit
      [where pre = "[logging_child 0 RLM_MODULE_OK]" and s = "[]" and rs = "[RLM_MODULE_OK]"
        and ?s1.0 = "[0]" and acts = example_actions and k = "logging_child 1 RLM_MODULE_REJECT"
        and r = RLM_MODULE_REJECT and ?s2.0 = "[0, 1]"
        and post = "[logging_child 2 RLM_MODULE_UPDATED]", OF pre prios rej] a1
    by simp
  moreover have "sequential_group example_actions
     ([logging_child 0 RLM_MODULE_OK] @ logging_child 1 RLM_MODULE_HANDLED #
      [logging_child 2 RLM_MODULE_UPDATED]) [] = (Aborted RLM_MODULE_HANDLED, [0, 1], 2)"
    using sequential_group_short_circuit
      [where pre = "[logging_child 0 RLM_MODULE_OK]" and s = "[]" and rs = "[RLM_MODULE_OK]"
        and ?s1.0 = "[0]" and acts = example_actions and k = "logging_child 1 RLM_MODULE_HANDLED"
        and r = RLM_MODULE_HANDLED and ?s2.0 = "[0, 1]"
        and post = "[logging_child 2 RLM_MODULE_UPDATED]", OF pre prios ret] a2
    by simp
  ultimately show ?thesis by simp
qed

end
